theory Spec2Isabelle
  imports Complex_Main "HOL-Library.AList"
begin

section \<open>JavaScript numbers\<close>

text \<open>
  The engine computes with JavaScript numbers. A number is modelled as an exact real, or
  as one of the three values that JavaScript arithmetic produces outside the reals:
  \<open>Infinity\<close>, \<open>-Infinity\<close> and \<open>NaN\<close>. What doubles add to this is not modelled: the
  rounding of every result to 53 bits (so that sums taken in another order differ in the
  last place, and \<open>1 + r\<close> is \<open>1\<close> for a tiny \<open>r\<close>), and the overflow of a large finite
  result to an infinity. The properties below are therefore stated where exact and
  double arithmetic agree (comparisons, branches, divisions of zero by zero, the values
  at named inputs), or for values within the range of doubles and up to rounding, which
  is what the specification's "within floating tolerance" refers to. Zero has no sign;
  every zero divisor that the modelled code can produce is \<open>+0\<close> (a difference of equal
  numbers, or a power of \<open>+0\<close>), so a non-zero number divided by zero takes the sign of
  the numerator.
\<close>

datatype jsnum = Num real | PInf | NInf | NaN

fun js_neg :: "jsnum \<Rightarrow> jsnum" where
  "js_neg (Num a) = Num (- a)"
| "js_neg PInf = NInf"
| "js_neg NInf = PInf"
| "js_neg NaN = NaN"

fun js_add :: "jsnum \<Rightarrow> jsnum \<Rightarrow> jsnum" where
  "js_add (Num a) (Num b) = Num (a + b)"
| "js_add NaN _ = NaN"
| "js_add _ NaN = NaN"
| "js_add PInf NInf = NaN"
| "js_add NInf PInf = NaN"
| "js_add PInf _ = PInf"
| "js_add _ PInf = PInf"
| "js_add NInf _ = NInf"
| "js_add _ NInf = NInf"

definition js_sub :: "jsnum \<Rightarrow> jsnum \<Rightarrow> jsnum" where
  "js_sub a b = js_add a (js_neg b)"

fun js_mul :: "jsnum \<Rightarrow> jsnum \<Rightarrow> jsnum" where
  "js_mul (Num a) (Num b) = Num (a * b)"
| "js_mul NaN _ = NaN"
| "js_mul _ NaN = NaN"
| "js_mul (Num a) PInf = (if a = 0 then NaN else if 0 < a then PInf else NInf)"
| "js_mul (Num a) NInf = (if a = 0 then NaN else if 0 < a then NInf else PInf)"
| "js_mul PInf (Num b) = (if b = 0 then NaN else if 0 < b then PInf else NInf)"
| "js_mul NInf (Num b) = (if b = 0 then NaN else if 0 < b then NInf else PInf)"
| "js_mul PInf PInf = PInf"
| "js_mul PInf NInf = NInf"
| "js_mul NInf PInf = NInf"
| "js_mul NInf NInf = PInf"

fun js_div :: "jsnum \<Rightarrow> jsnum \<Rightarrow> jsnum" where
  "js_div (Num a) (Num b) =
     (if b = 0 then (if a = 0 then NaN else if 0 < a then PInf else NInf)
      else Num (a / b))"
| "js_div NaN _ = NaN"
| "js_div _ NaN = NaN"
| "js_div (Num a) PInf = Num 0"
| "js_div (Num a) NInf = Num 0"
| "js_div PInf (Num b) = (if 0 \<le> b then PInf else NInf)"
| "js_div NInf (Num b) = (if 0 \<le> b then NInf else PInf)"
| "js_div PInf PInf = NaN"
| "js_div PInf NInf = NaN"
| "js_div NInf PInf = NaN"
| "js_div NInf NInf = NaN"

text \<open>The comparison operators; every comparison with \<open>NaN\<close> is false.\<close>

fun js_lt :: "jsnum \<Rightarrow> jsnum \<Rightarrow> bool" where
  "js_lt (Num a) (Num b) = (a < b)"
| "js_lt NaN _ = False"
| "js_lt _ NaN = False"
| "js_lt PInf _ = False"
| "js_lt _ NInf = False"
| "js_lt NInf _ = True"
| "js_lt _ PInf = True"

definition js_le :: "jsnum \<Rightarrow> jsnum \<Rightarrow> bool" where
  "js_le a b = (a \<noteq> NaN \<and> b \<noteq> NaN \<and> \<not> js_lt b a)"

definition js_gt :: "jsnum \<Rightarrow> jsnum \<Rightarrow> bool" where
  "js_gt a b = js_lt b a"

definition js_ge :: "jsnum \<Rightarrow> jsnum \<Rightarrow> bool" where
  "js_ge a b = js_le b a"

text \<open>\<open>Math.max\<close> and \<open>Math.min\<close> of two arguments: \<open>NaN\<close> if either is \<open>NaN\<close>.\<close>

definition Math_max :: "jsnum \<Rightarrow> jsnum \<Rightarrow> jsnum" where
  "Math_max a b = (if a = NaN \<or> b = NaN then NaN else if js_lt a b then b else a)"

definition Math_min :: "jsnum \<Rightarrow> jsnum \<Rightarrow> jsnum" where
  "Math_min a b = (if a = NaN \<or> b = NaN then NaN else if js_lt b a then b else a)"

text \<open>\<open>Math.round\<close>: the nearest integer, a tie going up.\<close>

fun Math_round :: "jsnum \<Rightarrow> jsnum" where
  "Math_round (Num a) = Num (of_int \<lfloor>a + 1 / 2\<rfloor>)"
| "Math_round PInf = PInf"
| "Math_round NInf = NInf"
| "Math_round NaN = NaN"

definition is_integer :: "real \<Rightarrow> bool" where
  "is_integer e = (of_int \<lfloor>e\<rfloor> = e)"

definition is_odd_integer :: "real \<Rightarrow> bool" where
  "is_odd_integer e = (is_integer e \<and> odd \<lfloor>e\<rfloor>)"

text \<open>
  \<open>Math.pow\<close>, by the cases of the language definition (Number::exponentiate), in their
  order: a \<open>NaN\<close> exponent, a zero exponent, a \<open>NaN\<close> base, an infinite base, a zero
  base, an infinite exponent, a negative base with a fractional exponent, and the real
  power.
\<close>

fun Math_pow :: "jsnum \<Rightarrow> jsnum \<Rightarrow> jsnum" where
  "Math_pow b NaN = NaN"
| "Math_pow b (Num e) =
     (if e = 0 then Num 1
      else (case b of
              NaN \<Rightarrow> NaN
            | PInf \<Rightarrow> (if 0 < e then PInf else Num 0)
            | NInf \<Rightarrow> (if 0 < e then (if is_odd_integer e then NInf else PInf) else Num 0)
            | Num x \<Rightarrow>
                (if x = 0 then (if 0 < e then Num 0 else PInf)
                 else if x < 0 \<and> \<not> is_integer e then NaN
                 else if is_integer e then Num (x powi \<lfloor>e\<rfloor>)
                 else Num (x powr e))))"
| "Math_pow b PInf =
     (case b of
        NaN \<Rightarrow> NaN
      | PInf \<Rightarrow> PInf
      | NInf \<Rightarrow> PInf
      | Num x \<Rightarrow> (if 1 < \<bar>x\<bar> then PInf else if \<bar>x\<bar> = 1 then NaN else Num 0))"
| "Math_pow b NInf =
     (case b of
        NaN \<Rightarrow> NaN
      | PInf \<Rightarrow> Num 0
      | NInf \<Rightarrow> Num 0
      | Num x \<Rightarrow> (if 1 < \<bar>x\<bar> then Num 0 else if \<bar>x\<bar> = 1 then NaN else PInf))"

text \<open>
  Truthiness of a number, and \<open>x || d\<close> on a number: \<open>0\<close> and \<open>NaN\<close> are falsy. A field
  that may be absent from an object is an \<open>option\<close>; \<open>undefined || d\<close> is \<open>d\<close>.
\<close>

fun js_truthy :: "jsnum \<Rightarrow> bool" where
  "js_truthy (Num a) = (a \<noteq> 0)"
| "js_truthy NaN = False"
| "js_truthy PInf = True"
| "js_truthy NInf = True"

definition js_or :: "jsnum \<Rightarrow> jsnum \<Rightarrow> jsnum" where
  "js_or a d = (if js_truthy a then a else d)"

definition or_default :: "real option \<Rightarrow> real \<Rightarrow> real" where
  "or_default x d = (case x of None \<Rightarrow> d | Some v \<Rightarrow> if v = 0 then d else v)"

text \<open>The largest finite double, \<open>Number.MAX_VALUE\<close>, and the reals of at most that size.\<close>

definition MAX_VALUE :: real where
  "MAX_VALUE = (2 ^ 53 - 1) * 2 ^ 971"

definition withinDoubleRange :: "real \<Rightarrow> bool" where
  "withinDoubleRange x = (\<bar>x\<bar> \<le> MAX_VALUE)"

section \<open>LiabilityClasses: the amortization calculator\<close>

text \<open>
  A liability as \<open>createDefaultLiability\<close> builds it. The numeric fields hold finite
  numbers; \<open>currentBalance\<close> is read as \<open>liability.currentBalance || 0\<close> and may be
  absent.
\<close>

record liability =
  liab_id :: string
  liab_type :: string
  principal :: real
  currentBalance :: "real option"
  rate :: real
  termYears :: real
  monthlyPayment :: real

text \<open>
  \<open>calculateMonthlyPayment(principal, annualRate, termYears)\<close>. The arithmetic is exact.
  In doubles the same expression is \<open>NaN\<close> when \<open>(1 + r)^n\<close> overflows (a rate of 3600
  percent over 50 years) and \<open>Infinity\<close> when \<open>1 + r\<close> rounds to 1 (a rate of 1e-15
  percent); nothing is stated below about such arguments.
\<close>

definition calculateMonthlyPayment :: "real \<Rightarrow> real \<Rightarrow> real \<Rightarrow> jsnum" where
  "calculateMonthlyPayment principal' annualRate termYears' =
     (if principal' \<le> 0 \<or> annualRate \<le> 0 \<or> termYears' \<le> 0 then Num 0
      else
        let monthlyRate = annualRate / 100 / 12;
            numPayments = termYears' * 12;
            monthlyPayment' =
              js_div
                (js_mul (Num principal')
                   (js_mul (Num monthlyRate) (Math_pow (Num (1 + monthlyRate)) (Num numPayments))))
                (js_sub (Math_pow (Num (1 + monthlyRate)) (Num numPayments)) (Num 1))
        in js_div (Math_round (js_mul monthlyPayment' (Num 100))) (Num 100))"

text \<open>
  \<open>calculateRemainingBalance(liability, years)\<close>; \<open>years\<close> may be fractional. The
  arithmetic is exact; in doubles the quotient is \<open>NaN\<close> for the same extreme rates as
  in \<open>calculateMonthlyPayment\<close>, and nothing is stated below about them. At rate 0 the
  quotient is \<open>0 / 0\<close> in exact and in double arithmetic alike.
\<close>

definition calculateRemainingBalance :: "liability \<Rightarrow> real \<Rightarrow> jsnum" where
  "calculateRemainingBalance l years =
     (if years \<le> 0 then Num (principal l)
      else if termYears l \<le> years then Num 0
      else
        let monthlyRate = rate l / 100 / 12;
            totalPayments = termYears l * 12;
            paymentsMade = years * 12;
            remainingBalance =
              js_div
                (js_mul (Num (principal l))
                   (js_sub (Math_pow (Num (1 + monthlyRate)) (Num totalPayments))
                           (Math_pow (Num (1 + monthlyRate)) (Num paymentsMade))))
                (js_sub (Math_pow (Num (1 + monthlyRate)) (Num totalPayments)) (Num 1))
        in Math_max (Num 0) (js_div (Math_round (js_mul remainingBalance (Num 100))) (Num 100)))"

text \<open>
  \<open>calculateLiabilitiesValue(liabilities, years)\<close> of the engine. The flag says whether the
  global \<open>window.liabilityClasses\<close> is defined; the list is \<open>None\<close> when the argument is
  missing.
\<close>

definition calculateLiabilitiesValue :: "bool \<Rightarrow> liability list option \<Rightarrow> real \<Rightarrow> jsnum" where
  "calculateLiabilitiesValue liabilityClasses liabilities' years =
     (case liabilities' of
        None \<Rightarrow> Num 0
      | Some ls \<Rightarrow>
          if length ls = 0 then Num 0
          else foldl (\<lambda>totalLiabilities' l.
                 if \<not> liabilityClasses
                 then js_add totalLiabilities' (Num (or_default (currentBalance l) 0))
                 else js_add totalLiabilities' (calculateRemainingBalance l years))
               (Num 0) ls)"

section \<open>The portfolio, the scenarios and the settings\<close>

datatype scenario = Pessimistic | Base | Optimistic

text \<open>An object with the three scenario labels as keys, read by label.\<close>

record 'a by_scenario =
  pessimistic :: 'a
  base :: 'a
  optimistic :: 'a

fun select :: "scenario \<Rightarrow> 'a by_scenario \<Rightarrow> 'a" where
  "select Pessimistic r = pessimistic r"
| "select Base r = base r"
| "select Optimistic r = optimistic r"

text \<open>
  An asset; \<open>value\<close> is read as \<open>asset.value || 0\<close> and may be absent. The type tag is a
  string. \<open>groupAssetsByType\<close> uses the tags as keys of a plain object, and two kinds of
  tag behave there unlike the others: for the name of a member that every object
  inherits, \<open>groups[asset.type]\<close> is that member and \<open>push\<close> throws a \<open>TypeError\<close>; and
  keys that are canonical integers are enumerated first, in numeric order. The model of
  the grouping stands for the code on the other tags, the ordinary ones.
\<close>

definition inheritedMembers :: "string list" where
  "inheritedMembers =
     [''constructor'', ''toString'', ''toLocaleString'', ''valueOf'', ''hasOwnProperty'',
      ''isPrototypeOf'', ''propertyIsEnumerable'', ''__proto__'', ''__defineGetter__'',
      ''__defineSetter__'', ''__lookupGetter__'', ''__lookupSetter__'']"

definition isDigit :: "char \<Rightarrow> bool" where
  "isDigit c = (c \<in> set ''0123456789'')"

definition isIntegerLike :: "string \<Rightarrow> bool" where
  "isIntegerLike t = (t \<noteq> [] \<and> list_all isDigit t \<and> (t = ''0'' \<or> hd t \<noteq> CHR ''0''))"

definition ordinaryTag :: "string \<Rightarrow> bool" where
  "ordinaryTag t = (t \<notin> set inheritedMembers \<and> \<not> isIntegerLike t)"

record asset =
  asset_id :: string
  asset_type :: string
  asset_name :: string
  asset_value :: "real option"

text \<open>
  The portfolio. The code reads the two lists as \<open>portfolio.assets || []\<close> and
  \<open>portfolio.liabilities || []\<close>, and the cached total as \<open>portfolio.totalValue || 0\<close>.
\<close>

record portfolio =
  assets :: "asset list option"
  liabilities :: "liability list option"
  totalValue :: "real option"
  totalLiabilities :: "real option"
  netWorth :: "real option"

record scenarios =
  returnRates :: "(string \<times> real by_scenario) list"

record settings =
  horizonYears :: int
  inflation :: real
  showRealValues :: bool

text \<open>
  The asset type registry \<open>window.assetClasses\<close>: \<open>getAssetInfo\<close> maps a type tag to its
  entry or to \<open>null\<close>. An adjustment that is absent from an entry is \<open>None\<close>. The
  registry as a whole is \<open>None\<close> when the global is undefined.
\<close>

record asset_info =
  riskLevel :: string
  liquidity :: string
  inflationAdjustment :: "real option by_scenario"

type_synonym asset_classes = "(string \<Rightarrow> asset_info option) option"

definition assetTypes :: "(string \<times> asset_info) list" where
  "assetTypes =
     [(''stocks'', \<lparr>riskLevel = ''high'', liquidity = ''high'',
         inflationAdjustment = \<lparr>pessimistic = Some (- 1), base = Some 5, optimistic = Some 10\<rparr>\<rparr>),
      (''bonds'', \<lparr>riskLevel = ''medium'', liquidity = ''medium'',
         inflationAdjustment = \<lparr>pessimistic = Some (- 2), base = Some 1, optimistic = Some 5\<rparr>\<rparr>),
      (''cash'', \<lparr>riskLevel = ''low'', liquidity = ''high'',
         inflationAdjustment = \<lparr>pessimistic = Some (- 1), base = Some 0, optimistic = Some 1\<rparr>\<rparr>),
      (''realty'', \<lparr>riskLevel = ''medium'', liquidity = ''low'',
         inflationAdjustment = \<lparr>pessimistic = Some (- 4), base = Some 0, optimistic = Some 2\<rparr>\<rparr>)]"

definition getAssetInfo :: "string \<Rightarrow> asset_info option" where
  "getAssetInfo assetType = map_of assetTypes assetType"

section \<open>FinancialEngine: projections\<close>

text \<open>One entry of a projection (\<open>yearData\<close>); \<open>breakdown\<close> keeps its keys in insertion order.\<close>

record yearData =
  year :: nat
  nominal :: jsnum
  real_val :: jsnum
  breakdown :: "(string \<times> jsnum) list"
  liabilities_val :: jsnum
  netWorth_val :: jsnum

text \<open>
  \<open>groupAssetsByType\<close>, for ordinary tags: an object from type tag to the assets of that
  type, keys in the order of their first asset, each group in the order of the list.
\<close>

definition groupAssetsByType :: "asset list \<Rightarrow> (string \<times> asset list) list" where
  "groupAssetsByType assets' =
     foldl (\<lambda>groups a.
              AList.update (asset_type a)
                ((case map_of groups (asset_type a) of None \<Rightarrow> [] | Some g \<Rightarrow> g) @ [a])
                groups)
           [] assets'"

text \<open>
  \<open>calculateAssetTypeValue\<close>: the total of a type's assets, in the order of the list,
  times the growth factor. The sum is exact here and rounded after every addition in the
  code.
\<close>

definition calculateAssetTypeValue :: "asset list \<Rightarrow> real \<Rightarrow> real \<Rightarrow> jsnum" where
  "calculateAssetTypeValue assets' returnRate years =
     (let totalValue' = foldl (\<lambda>sum a. sum + or_default (asset_value a) 0) 0 assets';
          growthFactor = Math_pow (Num (1 + returnRate / 100)) (Num years)
      in js_mul (Num totalValue') growthFactor)"

definition calculateInflationAdjustedReturn :: "real \<Rightarrow> real \<Rightarrow> real" where
  "calculateInflationAdjustedReturn inflationRate adjustment = inflationRate + adjustment"

text \<open>
  The adjustment read in the loop body:
  \<open>window.assetClasses?.getAssetInfo(assetType)?.inflationAdjustment?.[scenarioType] || 0\<close>.
\<close>

definition inflationAdjustmentOf :: "asset_classes \<Rightarrow> string \<Rightarrow> scenario \<Rightarrow> real" where
  "inflationAdjustmentOf assetClasses assetType scenarioType =
     (case assetClasses of
        None \<Rightarrow> 0
      | Some getInfo \<Rightarrow>
          (case getInfo assetType of
             None \<Rightarrow> 0
           | Some assetInfo \<Rightarrow> or_default (select scenarioType (inflationAdjustment assetInfo)) 0))"

text \<open>
  The callback of \<open>Object.entries(assetsByType).forEach\<close>: it adds one asset type to the
  year's entry.
\<close>

definition addAssetType ::
  "asset_classes \<Rightarrow> scenario \<Rightarrow> real \<Rightarrow> nat \<Rightarrow> yearData \<Rightarrow> string \<times> asset list \<Rightarrow> yearData" where
  "addAssetType assetClasses scenarioType inflationRate y yd entry =
     (case entry of (assetType, assets') \<Rightarrow>
        let inflationAdjustment' = inflationAdjustmentOf assetClasses assetType scenarioType;
            returnRate = calculateInflationAdjustedReturn (inflationRate * 100) inflationAdjustment';
            typeValue = calculateAssetTypeValue assets' returnRate (real y)
        in yd\<lparr>breakdown := AList.update assetType typeValue (breakdown yd),
              nominal := js_add (nominal yd) typeValue\<rparr>)"

text \<open>The body of the loop over the years, for one year.\<close>

definition yearPoint ::
  "asset_classes \<Rightarrow> bool \<Rightarrow> portfolio \<Rightarrow> scenario \<Rightarrow> settings \<Rightarrow> nat \<Rightarrow> yearData" where
  "yearPoint assetClasses liabilityClasses p scenarioType st y =
     (let inflationRate = inflation st / 100;
          assetsByType = groupAssetsByType (case assets p of None \<Rightarrow> [] | Some as \<Rightarrow> as);
          liabilities' = (case liabilities p of None \<Rightarrow> [] | Some ls \<Rightarrow> ls);
          yearData0 = \<lparr>year = y, nominal = Num 0, real_val = Num 0, breakdown = [],
                       liabilities_val = Num 0, netWorth_val = Num 0\<rparr>;
          yearData1 = foldl (addAssetType assetClasses scenarioType inflationRate y)
                        yearData0 assetsByType;
          yearData2 = yearData1\<lparr>liabilities_val :=
                        calculateLiabilitiesValue liabilityClasses (Some liabilities') (real y)\<rparr>;
          yearData3 = yearData2\<lparr>netWorth_val := js_sub (nominal yearData2) (liabilities_val yearData2)\<rparr>;
          inflationFactor = Math_pow (Num (1 + inflationRate)) (Num (real y))
      in yearData3\<lparr>real_val := js_div (netWorth_val yearData3) inflationFactor\<rparr>)"

text \<open>
  \<open>calculateScenarioProjection\<close>: the loop \<open>for (year = 0; year <= horizonYears; year++)\<close>
  pushes one entry per year; it runs \<open>horizonYears + 1\<close> times, and not at all when the
  horizon is negative. The \<open>scenarios\<close> argument is not read.
\<close>

definition calculateScenarioProjection ::
  "asset_classes \<Rightarrow> bool \<Rightarrow> portfolio \<Rightarrow> scenarios \<Rightarrow> scenario \<Rightarrow> settings \<Rightarrow> yearData list" where
  "calculateScenarioProjection assetClasses liabilityClasses p sc scenarioType st =
     map (yearPoint assetClasses liabilityClasses p scenarioType st)
         [0 ..< nat (horizonYears st + 1)]"

section \<open>FinancialEngine: the memoization cache\<close>

text \<open>
  The \<open>data\<close> object that \<open>getCacheKey\<close> builds and serializes. \<open>JSON.stringify\<close> is a
  parameter of the model: any function from this object to a string.
\<close>

record cache_data =
  data_assets :: "(string \<times> real option) list"
  data_liabilities :: "(string \<times> real \<times> real \<times> real) list"
  data_scenarios :: "(string \<times> real by_scenario) list"
  data_horizon :: int
  data_inflation :: real

definition getCacheKey ::
  "(cache_data \<Rightarrow> string) \<Rightarrow> portfolio \<Rightarrow> scenarios \<Rightarrow> settings \<Rightarrow> string" where
  "getCacheKey JSON_stringify p sc st =
     JSON_stringify
       \<lparr>data_assets =
          (case assets p of None \<Rightarrow> [] | Some as \<Rightarrow> map (\<lambda>a. (asset_type a, asset_value a)) as),
        data_liabilities =
          (case liabilities p of
             None \<Rightarrow> []
           | Some ls \<Rightarrow> map (\<lambda>l. (liab_type l, principal l, rate l, termYears l)) ls),
        data_scenarios = returnRates sc,
        data_horizon = horizonYears st,
        data_inflation = inflation st\<rparr>"

text \<open>
  The engine instance. Projection objects live in a heap and are named by their address,
  so that returning the same object twice is visible; \<open>cache\<close> is the \<open>Map\<close> from key to
  projection object.
\<close>

type_synonym projections = "yearData list by_scenario"

record engine =
  heap :: "projections list"
  cache :: "string \<rightharpoonup> nat"

definition newEngine :: engine where
  "newEngine = \<lparr>heap = [], cache = Map.empty\<rparr>"

text \<open>\<open>calculateProjections\<close> returns the address of the projections object and the engine.\<close>

definition calculateProjections ::
  "(cache_data \<Rightarrow> string) \<Rightarrow> asset_classes \<Rightarrow> bool \<Rightarrow> engine \<Rightarrow>
   portfolio \<Rightarrow> scenarios \<Rightarrow> settings \<Rightarrow> nat \<times> engine" where
  "calculateProjections JSON_stringify assetClasses liabilityClasses this p sc st =
     (let cacheKey = getCacheKey JSON_stringify p sc st in
      case cache this cacheKey of
        Some cached \<Rightarrow> (cached, this)
      | None \<Rightarrow>
          let projections' =
                \<lparr>pessimistic = calculateScenarioProjection assetClasses liabilityClasses p sc Pessimistic st,
                 base = calculateScenarioProjection assetClasses liabilityClasses p sc Base st,
                 optimistic = calculateScenarioProjection assetClasses liabilityClasses p sc Optimistic st\<rparr>;
              address = length (heap this)
          in (address, this\<lparr>heap := heap this @ [projections'],
                            cache := (cache this)(cacheKey \<mapsto> address)\<rparr>))"

section \<open>FinancialEngine: metrics\<close>

text \<open>
  \<open>array[i]?.nominal || 0\<close> for an integer index: an index outside the array reads
  \<open>undefined\<close>.
\<close>

definition nominalAt :: "yearData list \<Rightarrow> int \<Rightarrow> jsnum" where
  "nominalAt xs i =
     (if 0 \<le> i \<and> i < int (length xs) then js_or (nominal (xs ! nat i)) (Num 0) else Num 0)"

definition calculateMaxDrawdown :: "yearData list \<Rightarrow> jsnum" where
  "calculateMaxDrawdown projections' =
     snd (foldl (\<lambda>(maxValue, maxDrawdown) yd.
                   let value' = nominal yd;
                       maxValue' = Math_max maxValue value'
                   in if js_gt maxValue' (Num 0)
                      then let drawdown = js_mul (js_div (js_sub maxValue' value') maxValue') (Num 100)
                           in (maxValue', Math_max maxDrawdown drawdown)
                      else (maxValue', maxDrawdown))
                (Num 0, Num 0) projections')"

definition assetRiskWeights :: "string \<Rightarrow> real option" where
  "assetRiskWeights t =
     (if t = ''cash'' then Some 1
      else if t = ''bonds'' then Some 2
      else if t = ''realty'' then Some 4
      else if t = ''stocks'' then Some 6
      else None)"

definition calculateRiskScore :: "portfolio \<Rightarrow> jsnum \<Rightarrow> jsnum" where
  "calculateRiskScore p volatility' =
     (case assets p of
        None \<Rightarrow> Num 1
      | Some as \<Rightarrow>
          if length as = 0 then Num 1
          else
            let totalValue' = or_default (totalValue p) 1;
                weightedRisk =
                  foldl (\<lambda>w a.
                           let weight = or_default (asset_value a) 0 / totalValue';
                               assetRisk = or_default (assetRiskWeights (asset_type a)) 3
                           in w + weight * assetRisk)
                        0 as;
                volatilityAdjustment = Math_min (js_div volatility' (Num 20)) (Num 2)
            in Math_min
                 (Math_max (Math_round (js_add (Num weightedRisk) volatilityAdjustment)) (Num 1))
                 (Num 10))"

record metrics =
  currentValue :: real
  futureValue :: "jsnum by_scenario"
  growthRate :: jsnum
  volatility :: jsnum
  sharpeRatio :: jsnum
  maxDrawdown :: jsnum
  riskScore :: jsnum

definition calculateMetrics :: "portfolio \<Rightarrow> projections \<Rightarrow> settings \<Rightarrow> metrics" where
  "calculateMetrics p projections' st =
     (let currentValue' = or_default (totalValue p) 0;
          futureValueBase = nominalAt (base projections') (int (length (base projections')) - 1);
          growthRate' =
            (if 0 < currentValue' \<and> 0 < horizonYears st
             then js_mul
                    (js_sub
                       (Math_pow (js_div futureValueBase (Num currentValue'))
                                 (Num (1 / real_of_int (horizonYears st))))
                       (Num 1))
                    (Num 100)
             else Num 0);
          finalYear = horizonYears st;
          pessimisticValue = nominalAt (pessimistic projections') finalYear;
          optimisticValue = nominalAt (optimistic projections') finalYear;
          volatility' =
            (if 0 < currentValue'
             then js_mul (js_div (js_sub optimisticValue pessimisticValue) (Num (2 * currentValue')))
                         (Num 100)
             else Num 0);
          riskFreeRate = Num 4;
          sharpeRatio' =
            (if js_gt volatility' (Num 0) then js_div (js_sub growthRate' riskFreeRate) volatility'
             else Num 0);
          maxDrawdown' = calculateMaxDrawdown (pessimistic projections');
          riskScore' = calculateRiskScore p volatility'
      in \<lparr>currentValue = currentValue',
          futureValue = \<lparr>pessimistic = pessimisticValue, base = futureValueBase,
                          optimistic = optimisticValue\<rparr>,
          growthRate = growthRate',
          volatility = volatility',
          sharpeRatio = sharpeRatio',
          maxDrawdown = maxDrawdown',
          riskScore = riskScore'\<rparr>)"

section \<open>Example data\<close>

text \<open>The mortgage of the specification: 1,000,000 at 8.5 percent over 20 years.\<close>

definition mortgage :: liability where
  "mortgage =
     \<lparr>liab_id = ''mortgage_1'', liab_type = ''mortgage'', principal = 1000000,
      currentBalance = Some 1000000, rate = 17 / 2, termYears = 20,
      monthlyPayment = 867823 / 100\<rparr>"


definition stocksAsset :: asset where
  "stocksAsset =
     \<lparr>asset_id = ''stocks_1'', asset_type = ''stocks'', asset_name = ''fund'',
      asset_value = Some 100000\<rparr>"

definition stocksAsset2 :: asset where
  "stocksAsset2 =
     \<lparr>asset_id = ''stocks_2'', asset_type = ''stocks'', asset_name = ''other fund'',
      asset_value = Some 50000\<rparr>"

definition bondsAsset :: asset where
  "bondsAsset =
     \<lparr>asset_id = ''bonds_1'', asset_type = ''bonds'', asset_name = ''bond fund'',
      asset_value = Some 25000\<rparr>"

text \<open>A portfolio whose cached totals are up to date, and one with a stale \<open>totalValue\<close>.\<close>

definition freshPortfolio :: portfolio where
  "freshPortfolio =
     \<lparr>assets = Some [stocksAsset], liabilities = Some [], totalValue = Some 100000,
      totalLiabilities = Some 0, netWorth = Some 100000\<rparr>"

definition stalePortfolio :: portfolio where
  "stalePortfolio =
     \<lparr>assets = Some [stocksAsset], liabilities = Some [], totalValue = Some 1000000,
      totalLiabilities = Some 0, netWorth = Some 100000\<rparr>"

definition mixedPortfolio :: portfolio where
  "mixedPortfolio =
     \<lparr>assets = Some [stocksAsset, bondsAsset, stocksAsset2], liabilities = Some [mortgage],
      totalValue = Some 175000, totalLiabilities = Some 1000000, netWorth = Some (- 825000)\<rparr>"

definition emptyPortfolio :: portfolio where
  "emptyPortfolio =
     \<lparr>assets = Some [], liabilities = Some [], totalValue = Some 0,
      totalLiabilities = Some 0, netWorth = Some 0\<rparr>"

text \<open>The default scenarios and settings of the data manager.\<close>

definition defaultScenarios :: scenarios where
  "defaultScenarios =
     \<lparr>returnRates =
        [(''stocks'', \<lparr>pessimistic = 5, base = 12, optimistic = 20\<rparr>),
         (''bonds'', \<lparr>pessimistic = 3, base = 8, optimistic = 12\<rparr>),
         (''cash'', \<lparr>pessimistic = 4, base = 7, optimistic = 10\<rparr>),
         (''realty'', \<lparr>pessimistic = 0, base = 5, optimistic = 12\<rparr>)]\<rparr>"

definition defaultSettings :: settings where
  "defaultSettings = \<lparr>horizonYears = 10, inflation = 6, showRealValues = False\<rparr>"

text \<open>A serializer used in examples: the type tags of the assets, one after another.\<close>

definition tagsOnly :: "cache_data \<Rightarrow> string" where
  "tagsOnly d = concat (map fst (data_assets d))"

text \<open>
  The fresh portfolio again as another object: other id and name, no liability list,
  other cached totals.
\<close>

definition renamedPortfolio :: portfolio where
  "renamedPortfolio =
     \<lparr>assets = Some [\<lparr>asset_id = ''stocks_7'', asset_type = ''stocks'', asset_name = ''renamed'',
                       asset_value = Some 100000\<rparr>],
      liabilities = None, totalValue = Some 1, totalLiabilities = None, netWorth = None\<rparr>"

text \<open>The fresh portfolio with stale \<open>totalLiabilities\<close> and \<open>netWorth\<close> only.\<close>

definition staleDebtPortfolio :: portfolio where
  "staleDebtPortfolio =
     \<lparr>assets = Some [stocksAsset], liabilities = Some [], totalValue = Some 100000,
      totalLiabilities = Some 5, netWorth = Some 7\<rparr>"

definition zeroHorizon :: settings where
  "zeroHorizon = \<lparr>horizonYears = 0, inflation = 6, showRealValues = False\<rparr>"

definition noProjections :: projections where
  "noProjections = \<lparr>pessimistic = [], base = [], optimistic = []\<rparr>"

definition stocksPortfolio :: portfolio where
  "stocksPortfolio =
     \<lparr>assets = Some [stocksAsset, stocksAsset2], liabilities = Some [],
      totalValue = Some 150000, totalLiabilities = Some 0, netWorth = Some 150000\<rparr>"

text \<open>The value of an asset as the sums read it: \<open>asset.value || 0\<close>.\<close>

definition valueOf :: "asset \<Rightarrow> real" where
  "valueOf a = or_default (asset_value a) 0"


text \<open>An interest-free loan, as \<open>createDefaultLiability('consumer', 100000, 0, 10)\<close> builds it.\<close>

definition interestFreeLoan :: liability where
  "interestFreeLoan =
     \<lparr>liab_id = ''consumer_2'', liab_type = ''consumer'', principal = 100000,
      currentBalance = Some 100000, rate = 0, termYears = 10, monthlyPayment = 0\<rparr>"

text \<open>The default return-rate table with its keys in another order.\<close>

definition reorderedScenarios :: scenarios where
  "reorderedScenarios =
     \<lparr>returnRates =
        [(''bonds'', \<lparr>pessimistic = 3, base = 8, optimistic = 12\<rparr>),
         (''stocks'', \<lparr>pessimistic = 5, base = 12, optimistic = 20\<rparr>),
         (''cash'', \<lparr>pessimistic = 4, base = 7, optimistic = 10\<rparr>),
         (''realty'', \<lparr>pessimistic = 0, base = 5, optimistic = 12\<rparr>)]\<rparr>"

text \<open>
  A serializer that, as \<open>JSON.stringify\<close> does, writes the keys of the rate table in
  their order: the type tags of the assets, a bar, the keys of the table.
\<close>

definition tagsAndRateKeys :: "cache_data \<Rightarrow> string" where
  "tagsAndRateKeys d = concat (map fst (data_assets d)) @ ''|'' @ concat (map fst (data_scenarios d))"

section \<open>The formulas in the words of the specification\<close>



text \<open>
  Discrete annual compounding, \<open>value \<cdot> (1 + r/100)^y\<close>, and the condition that the value,
  the growth factor and their product are within the range of doubles.
\<close>

definition compounded :: "real \<Rightarrow> real \<Rightarrow> nat \<Rightarrow> real" where
  "compounded v r y = v * (1 + r / 100) ^ y"

definition compoundsInRange :: "real \<Rightarrow> real \<Rightarrow> nat \<Rightarrow> bool" where
  "compoundsInRange v r y =
     (withinDoubleRange v \<and> withinDoubleRange ((1 + r / 100) ^ y) \<and> withinDoubleRange (compounded v r y))"



section \<open>Properties of the liability total and of the projection loop\<close>

lemma foldl_add_Num:
  "foldl (\<lambda>t l. js_add t (Num (f l))) (Num a) ls = Num (a + sum_list (map f ls))"
  by (induction ls arbitrary: a) (simp_all add: add.assoc)

lemma liabilities_val_yearPoint:
  "liabilities_val (yearPoint ac lc p s st y)
     = calculateLiabilitiesValue lc (Some (case liabilities p of None \<Rightarrow> [] | Some ls \<Rightarrow> ls)) (real y)"
  by (simp add: yearPoint_def Let_def)

lemma calculateScenarioProjection_nth:
  "int y \<le> horizonYears st \<Longrightarrow>
     calculateScenarioProjection ac lc p sc s st ! y = yearPoint ac lc p s st y"
  unfolding calculateScenarioProjection_def
  by (subst nth_map) auto


text \<open>
  C10: without the liability registry, \<open>calculateLiabilitiesValue\<close> is the sum of the
  \<open>currentBalance\<close> fields, a missing balance counting as 0; the result does not depend
  on \<open>years\<close>; an empty or a missing list gives 0, with or without the registry.
\<close>

theorem calculateLiabilitiesValue_without_registry:
  "calculateLiabilitiesValue False (Some ls) years
     = Num (sum_list (map (\<lambda>l. or_default (currentBalance l) 0) ls))
   \<and> calculateLiabilitiesValue False liabs years = calculateLiabilitiesValue False liabs years'
   \<and> calculateLiabilitiesValue lc (Some []) years = Num 0
   \<and> calculateLiabilitiesValue lc None years = Num 0"
  by (cases liabs) (simp_all add: calculateLiabilitiesValue_def foldl_add_Num)

text \<open>
  C4: at every year of the horizon, the \<open>liabilities\<close> value of the year's entry is the
  same in the projections of any two scenario labels.
\<close>

theorem liabilities_scenario_invariant:
  "int y \<le> horizonYears st \<Longrightarrow>
     liabilities_val (calculateScenarioProjection ac lc p sc s1 st ! y)
       = liabilities_val (calculateScenarioProjection ac lc p sc s2 st ! y)"
  by (simp add: calculateScenarioProjection_nth liabilities_val_yearPoint)

theorem liabilities_scenario_invariant_witness:
  "int 10 \<le> horizonYears defaultSettings
   \<and> liabilities_val (calculateScenarioProjection (Some getAssetInfo) True mixedPortfolio
         defaultScenarios Pessimistic defaultSettings ! 10)
     = liabilities_val (calculateScenarioProjection (Some getAssetInfo) True mixedPortfolio
         defaultScenarios Optimistic defaultSettings ! 10)"
  using liabilities_scenario_invariant
    [of 10 defaultSettings "Some getAssetInfo" True mixedPortfolio defaultScenarios
        Pessimistic Optimistic]
  by (simp add: defaultSettings_def)

lemma is_integer_of_nat [simp]: "is_integer (real n)"
  by (simp add: is_integer_def)

lemma Math_pow_nat: "Math_pow (Num b) (Num (real n)) = Num (b ^ n)"
  by (cases "n = 0") (simp_all add: power_int_def)

lemma foldl_plus: "foldl (\<lambda>sum a. sum + f a) s as = s + sum_list (map f as)" for s :: real
  by (induction as arbitrary: s) simp_all

lemma calculateAssetTypeValue_year:
  "calculateAssetTypeValue as r (real y) = Num (sum_list (map valueOf as) * (1 + r / 100) ^ y)"
  by (simp add: calculateAssetTypeValue_def Let_def Math_pow_nat foldl_plus valueOf_def [abs_def])

lemma nominal_addAssetType:
  "nominal yd = Num n \<Longrightarrow>
   nominal (foldl (addAssetType ac s i y) yd groups)
     = Num (n + (\<Sum>(t, as)\<leftarrow>groups.
                  sum_list (map valueOf as) * (1 + (i * 100 + inflationAdjustmentOf ac t s) / 100) ^ y))"
proof (induction groups arbitrary: yd n)
  case Nil
  then show ?case by simp
next
  case (Cons g groups)
  obtain t as where g: "g = (t, as)" by (cases g)
  have "nominal (addAssetType ac s i y yd g)
        = Num (n + sum_list (map valueOf as) * (1 + (i * 100 + inflationAdjustmentOf ac t s) / 100) ^ y)"
    using Cons.prems
    by (simp add: g addAssetType_def Let_def calculateAssetTypeValue_year
        calculateInflationAdjustedReturn_def)
  from Cons.IH [OF this] show ?case
    by (simp add: g add.assoc)
qed




lemma single_type_foldl:
  "\<forall>a\<in>set as. asset_type a = t \<Longrightarrow>
   foldl (\<lambda>groups a.
              AList.update (asset_type a)
                ((case map_of groups (asset_type a) of None \<Rightarrow> [] | Some g \<Rightarrow> g) @ [a])
                groups) [(t, g)] as = [(t, g @ as)]"
  by (induction as arbitrary: g) simp_all

lemma groupAssetsByType_single_type:
  "\<forall>a\<in>set as. asset_type a = t \<Longrightarrow>
   groupAssetsByType as = (if as = [] then [] else [(t, as)])"
proof (cases as)
  case Nil
  then show ?thesis by (simp add: groupAssetsByType_def)
next
  case (Cons a as')
  assume "\<forall>a\<in>set as. asset_type a = t"
  with Cons show ?thesis
    using single_type_foldl [of as' t "[a]"]
    by (simp add: groupAssetsByType_def)
qed

lemma js_div_one [simp]: "js_div x (Num 1) = x"
  by (cases x) simp_all

lemma nominal_yearPoint:
  "nominal (yearPoint ac lc p s st y)
     = Num (\<Sum>(t, as)\<leftarrow>groupAssetsByType (case assets p of None \<Rightarrow> [] | Some as \<Rightarrow> as).
              sum_list (map valueOf as) * (1 + (inflation st + inflationAdjustmentOf ac t s) / 100) ^ y)"
  using nominal_addAssetType [of "\<lparr>year = y, nominal = Num 0, real_val = Num 0, breakdown = [],
                       liabilities_val = Num 0, netWorth_val = Num 0\<rparr>" 0 ac s "inflation st / 100" y]
  by (simp add: yearPoint_def Let_def)


lemma netWorth_val_yearPoint:
  "netWorth_val (yearPoint ac lc p s st y)
    = js_sub (nominal (yearPoint ac lc p s st y)) (liabilities_val (yearPoint ac lc p s st y))"
  by (simp add: yearPoint_def Let_def)







lemma nominal_single_type:
  assumes "assets p = Some as" and "\<forall>a\<in>set as. asset_type a = t"
    and "int y \<le> horizonYears st"
  shows "nominal (calculateScenarioProjection ac lc p sc s st ! y)
       = Num (compounded (sum_list (map valueOf as)) (inflation st + inflationAdjustmentOf ac t s) y)"
proof -
  have n: "calculateScenarioProjection ac lc p sc s st ! y = yearPoint ac lc p s st y"
    using assms(3) by (rule calculateScenarioProjection_nth)
  show ?thesis
    by (simp add: n nominal_yearPoint assms(1) groupAssetsByType_single_type [OF assms(2)]
        compounded_def)
qed

text \<open>
  C2, as the code has it: when all assets of the portfolio are of one type (an ordinary
  tag, values \<open>\<ge> 0\<close>), the \<open>nominal\<close> value at every year \<open>y\<close> of the horizon is the sum of
  the asset values times \<open>(1 + r / 100) ^ y\<close>, within the range of doubles and up to
  rounding, where \<open>r\<close> is the inflation plus the adjustment that the asset type registry
  holds for the type under the scenario label, and the inflation alone when the registry
  or its entry for the type is missing. The return-rate table of the \<open>scenarios\<close> argument
  is not consulted: the statement holds for every table.
\<close>

theorem single_type_nominal:
  assumes "assets p = Some as" and "\<forall>a\<in>set as. asset_type a = t"
    and "ordinaryTag t" and "list_all (\<lambda>a. 0 \<le> valueOf a) as"
    and "int y \<le> horizonYears st"
  shows
    "(ac = Some reg \<and> reg t = Some info \<and> pessimistic (inflationAdjustment info) = Some aP
        \<and> compoundsInRange (sum_list (map valueOf as)) (inflation st + aP) y \<longrightarrow>
      nominal (calculateScenarioProjection ac lc p sc Pessimistic st ! y)
        = Num (compounded (sum_list (map valueOf as)) (inflation st + aP) y))
   \<and> (ac = Some reg \<and> reg t = Some info \<and> base (inflationAdjustment info) = Some aB
        \<and> compoundsInRange (sum_list (map valueOf as)) (inflation st + aB) y \<longrightarrow>
      nominal (calculateScenarioProjection ac lc p sc Base st ! y)
        = Num (compounded (sum_list (map valueOf as)) (inflation st + aB) y))
   \<and> (ac = Some reg \<and> reg t = Some info \<and> optimistic (inflationAdjustment info) = Some aO
        \<and> compoundsInRange (sum_list (map valueOf as)) (inflation st + aO) y \<longrightarrow>
      nominal (calculateScenarioProjection ac lc p sc Optimistic st ! y)
        = Num (compounded (sum_list (map valueOf as)) (inflation st + aO) y))
   \<and> ((ac = None \<or> (ac = Some reg \<and> reg t = None))
        \<and> compoundsInRange (sum_list (map valueOf as)) (inflation st) y \<longrightarrow>
      nominal (calculateScenarioProjection ac lc p sc s st ! y)
        = Num (compounded (sum_list (map valueOf as)) (inflation st) y))"
  by (auto simp add: nominal_single_type [OF assms(1,2,5)] inflationAdjustmentOf_def or_default_def)

theorem single_type_nominal_witness:
  "ordinaryTag ''stocks''
   \<and> int 2 \<le> horizonYears defaultSettings
   \<and> getAssetInfo ''stocks''
       = Some \<lparr>riskLevel = ''high'', liquidity = ''high'',
               inflationAdjustment = \<lparr>pessimistic = Some (- 1), base = Some 5, optimistic = Some 10\<rparr>\<rparr>
   \<and> compoundsInRange 150000 5 2 \<and> compoundsInRange 150000 11 2
   \<and> compoundsInRange 150000 16 2 \<and> compoundsInRange 150000 6 2
   \<and> nominal (calculateScenarioProjection (Some getAssetInfo) True stocksPortfolio
        defaultScenarios Pessimistic defaultSettings ! 2) = Num 165375
   \<and> nominal (calculateScenarioProjection (Some getAssetInfo) True stocksPortfolio
        defaultScenarios Base defaultSettings ! 2) = Num 184815
   \<and> nominal (calculateScenarioProjection (Some getAssetInfo) True stocksPortfolio
        defaultScenarios Optimistic defaultSettings ! 2) = Num 201840
   \<and> nominal (calculateScenarioProjection None True stocksPortfolio
        defaultScenarios Base defaultSettings ! 2) = Num 168540"
proof -
  have a: "assets stocksPortfolio = Some [stocksAsset, stocksAsset2]"
    by (simp add: stocksPortfolio_def)
  have t: "\<forall>a\<in>set [stocksAsset, stocksAsset2]. asset_type a = ''stocks''"
    by (simp add: stocksAsset_def stocksAsset2_def)
  have o: "ordinaryTag ''stocks''"
    by (simp add: ordinaryTag_def inheritedMembers_def isIntegerLike_def isDigit_def)
  have v: "list_all (\<lambda>a. 0 \<le> valueOf a) [stocksAsset, stocksAsset2]"
    by (simp add: valueOf_def or_default_def stocksAsset_def stocksAsset2_def)
  have y: "int 2 \<le> horizonYears defaultSettings"
    by (simp add: defaultSettings_def)
  have i: "getAssetInfo ''stocks''
       = Some \<lparr>riskLevel = ''high'', liquidity = ''high'',
               inflationAdjustment = \<lparr>pessimistic = Some (- 1), base = Some 5, optimistic = Some 10\<rparr>\<rparr>"
    by (simp add: getAssetInfo_def assetTypes_def)
  have r: "compoundsInRange 150000 5 2" "compoundsInRange 150000 11 2"
    "compoundsInRange 150000 16 2" "compoundsInRange 150000 6 2"
    by (simp_all add: compoundsInRange_def compounded_def withinDoubleRange_def MAX_VALUE_def
        power2_eq_square)
  have s: "valueOf stocksAsset + valueOf stocksAsset2 = 150000"
    by (simp add: valueOf_def or_default_def stocksAsset_def stocksAsset2_def)
  have c: "compounded 150000 5 2 = 165375" "compounded 150000 11 2 = 184815"
    "compounded 150000 16 2 = 201840" "compounded 150000 6 2 = 168540"
    by (simp_all add: compounded_def power2_eq_square)
  have d: "inflation defaultSettings = 6"
    by (simp add: defaultSettings_def)
  note w = single_type_nominal [OF a t o v y, where lc = True and sc = defaultScenarios]
  show ?thesis
    using w [where ac = "Some getAssetInfo" and reg = getAssetInfo
               and info = "\<lparr>riskLevel = ''high'', liquidity = ''high'',
                 inflationAdjustment = \<lparr>pessimistic = Some (- 1), base = Some 5, optimistic = Some 10\<rparr>\<rparr>"
               and aP = "- 1" and aB = 5 and aO = 10 and s = Base]
          w [where ac = None and reg = getAssetInfo and s = Base
               and info = "\<lparr>riskLevel = ''high'', liquidity = ''high'',
                 inflationAdjustment = \<lparr>pessimistic = Some (- 1), base = Some 5, optimistic = Some 10\<rparr>\<rparr>"
               and aP = "- 1" and aB = 5 and aO = 10]
          o y i r
    by (simp add: s c d)
qed

theorem returnRates_not_consulted_counterexample:
  "map_of (returnRates defaultScenarios) ''stocks''
     = Some \<lparr>pessimistic = 5, base = 12, optimistic = 20\<rparr>
   \<and> compounded 100000 12 1 = 112000
   \<and> nominal (calculateScenarioProjection (Some getAssetInfo) True freshPortfolio
        defaultScenarios Base defaultSettings ! 1) = Num 111000"
proof -
  have a: "assets freshPortfolio = Some [stocksAsset]"
    by (simp add: freshPortfolio_def)
  have t: "\<forall>a\<in>set [stocksAsset]. asset_type a = ''stocks''"
    by (simp add: stocksAsset_def)
  have y: "int 1 \<le> horizonYears defaultSettings"
    by (simp add: defaultSettings_def)
  have r: "inflation defaultSettings + inflationAdjustmentOf (Some getAssetInfo) ''stocks'' Base = 11"
    by (simp add: defaultSettings_def inflationAdjustmentOf_def getAssetInfo_def assetTypes_def
        or_default_def)
  show ?thesis
    using nominal_single_type [OF a t y, of "Some getAssetInfo" True defaultScenarios Base]
    by (simp add: r compounded_def defaultScenarios_def valueOf_def or_default_def stocksAsset_def)
qed

section \<open>Properties of the amortization calculator\<close>

lemma Math_pow_pos:
  assumes "0 < x"
  shows "Math_pow (Num x) (Num e) = Num (x powr e)"
proof (cases "is_integer e")
  case True
  then have k: "real_of_int \<lfloor>e\<rfloor> = e"
    unfolding is_integer_def .
  have "x powr real_of_int \<lfloor>e\<rfloor> = x powi \<lfloor>e\<rfloor>"
    by (rule powr_real_of_int') (use assms in auto)
  then have "x powi \<lfloor>e\<rfloor> = x powr e"
    unfolding k by simp
  with True assms show ?thesis by simp
next
  case False
  then have "e \<noteq> 0"
    by (auto simp add: is_integer_def)
  with False assms show ?thesis by simp
qed

lemma Math_pow_one: "Math_pow (Num 1) (Num e) = Num 1"
  using Math_pow_pos [of 1 e] by simp

lemma js_le_Num [simp]: "js_le (Num a) (Num b) = (a \<le> b)"
  by (auto simp add: js_le_def)


text \<open>
  C1: for a liability with rate 0, strictly inside the term, \<open>calculateRemainingBalance\<close>
  returns \<open>NaN\<close>: both powers of \<open>1 + 0\<close> are 1, the quotient is \<open>0 / 0\<close>, and neither
  \<open>Math.round\<close> nor \<open>Math.max(0, _)\<close> turns \<open>NaN\<close> into a number. The sibling
  \<open>calculateMonthlyPayment\<close> guards the same rate and returns 0.
\<close>

theorem calculateRemainingBalance_zero_rate:
  assumes "rate l = 0" and "0 < years" and "years < termYears l"
  shows "calculateRemainingBalance l years = NaN
       \<and> calculateMonthlyPayment (principal l) (rate l) (termYears l) = Num 0"
  using assms
  by (simp add: calculateRemainingBalance_def calculateMonthlyPayment_def Let_def Math_pow_one
      js_sub_def Math_max_def del: Math_pow.simps)

theorem calculateRemainingBalance_zero_rate_witness:
  "rate interestFreeLoan = 0 \<and> (0 :: real) < 5 \<and> 5 < termYears interestFreeLoan
   \<and> calculateRemainingBalance interestFreeLoan 5 = NaN
   \<and> calculateMonthlyPayment 100000 0 10 = Num 0"
proof -
  have h: "rate interestFreeLoan = 0" "(0 :: real) < 5" "5 < termYears interestFreeLoan"
    by (simp_all add: interestFreeLoan_def)
  show ?thesis
    using calculateRemainingBalance_zero_rate [OF h] h by (simp add: interestFreeLoan_def)
qed


subsection \<open>The mortgage of the specification, evaluated\<close>



















section \<open>Properties of the cache\<close>

lemma getCacheKey_cong:
  assumes "map (\<lambda>a. (asset_type a, asset_value a)) (case assets p1 of None \<Rightarrow> [] | Some as \<Rightarrow> as)
         = map (\<lambda>a. (asset_type a, asset_value a)) (case assets p2 of None \<Rightarrow> [] | Some as \<Rightarrow> as)"
    and "map (\<lambda>l. (liab_type l, principal l, rate l, termYears l))
             (case liabilities p1 of None \<Rightarrow> [] | Some ls \<Rightarrow> ls)
         = map (\<lambda>l. (liab_type l, principal l, rate l, termYears l))
             (case liabilities p2 of None \<Rightarrow> [] | Some ls \<Rightarrow> ls)"
    and "returnRates sc1 = returnRates sc2"
    and "horizonYears st1 = horizonYears st2"
    and "inflation st1 = inflation st2"
  shows "getCacheKey J p1 sc1 st1 = getCacheKey J p2 sc2 st2"
proof -
  have a: "(case assets p1 of None \<Rightarrow> [] | Some as \<Rightarrow> map (\<lambda>a. (asset_type a, asset_value a)) as)
         = (case assets p2 of None \<Rightarrow> [] | Some as \<Rightarrow> map (\<lambda>a. (asset_type a, asset_value a)) as)"
    using assms(1) by (simp split: option.splits)
  have l: "(case liabilities p1 of None \<Rightarrow> []
            | Some ls \<Rightarrow> map (\<lambda>l. (liab_type l, principal l, rate l, termYears l)) ls)
         = (case liabilities p2 of None \<Rightarrow> []
            | Some ls \<Rightarrow> map (\<lambda>l. (liab_type l, principal l, rate l, termYears l)) ls)"
    using assms(2) by (simp split: option.splits)
  show ?thesis
    unfolding getCacheKey_def a l assms(3-5) ..
qed

lemma calculateProjections_cached:
  "calculateProjections J ac lc e p sc st = (r, e') \<Longrightarrow> cache e' (getCacheKey J p sc st) = Some r"
  by (auto simp add: calculateProjections_def Let_def split: option.splits)

lemma calculateProjections_hit:
  "cache e (getCacheKey J p sc st) = Some r \<Longrightarrow> calculateProjections J ac lc e p sc st = (r, e)"
  by (simp add: calculateProjections_def Let_def)

lemma calculateProjections_miss:
  "cache e (getCacheKey J p sc st) = None \<Longrightarrow> calculateProjections J ac lc e p sc st = (r, e') \<Longrightarrow>
   r = length (heap e) \<and> heap e' ! r =
       \<lparr>pessimistic = calculateScenarioProjection ac lc p sc Pessimistic st,
        base = calculateScenarioProjection ac lc p sc Base st,
        optimistic = calculateScenarioProjection ac lc p sc Optimistic st\<rparr>"
  by (auto simp add: calculateProjections_def Let_def)

lemma yearPoint_cong:
  "assets p1 = assets p2 \<Longrightarrow> liabilities p1 = liabilities p2 \<Longrightarrow>
   yearPoint ac lc p1 s st y = yearPoint ac lc p2 s st y"
  by (simp add: yearPoint_def)

lemma calculateScenarioProjection_cong:
  "assets p1 = assets p2 \<Longrightarrow> liabilities p1 = liabilities p2 \<Longrightarrow>
   calculateScenarioProjection ac lc p1 sc s st = calculateScenarioProjection ac lc p2 sc s st"
  by (simp add: calculateScenarioProjection_def yearPoint_cong [of p1 p2])

text \<open>
  C6, as the code has it: a second call of \<open>calculateProjections\<close> whose inputs agree
  with those of the first call on the serialized data (the (type, value) pairs of the
  assets and the (type, principal, rate, termYears) tuples of the liabilities, each in
  the same order, the return-rate table with the same entries in the same key order, the
  horizon and the inflation) returns the address that the first call returned and leaves
  the engine as it is; when the first call was a miss, the object at that address is the
  one the first call computed and stored. The same table in another key order is another
  key.
\<close>

theorem calculateProjections_second_call:
  assumes "map (\<lambda>a. (asset_type a, asset_value a)) (case assets p1 of None \<Rightarrow> [] | Some as \<Rightarrow> as)
         = map (\<lambda>a. (asset_type a, asset_value a)) (case assets p2 of None \<Rightarrow> [] | Some as \<Rightarrow> as)"
    and "map (\<lambda>l. (liab_type l, principal l, rate l, termYears l))
             (case liabilities p1 of None \<Rightarrow> [] | Some ls \<Rightarrow> ls)
         = map (\<lambda>l. (liab_type l, principal l, rate l, termYears l))
             (case liabilities p2 of None \<Rightarrow> [] | Some ls \<Rightarrow> ls)"
    and "returnRates sc1 = returnRates sc2"
    and "horizonYears st1 = horizonYears st2"
    and "inflation st1 = inflation st2"
    and "calculateProjections J ac1 lc1 e p1 sc1 st1 = (r, e')"
  shows "calculateProjections J ac2 lc2 e' p2 sc2 st2 = (r, e')
       \<and> (cache e (getCacheKey J p1 sc1 st1) = None \<longrightarrow>
            r = length (heap e) \<and>
            heap e' ! r =
              \<lparr>pessimistic = calculateScenarioProjection ac1 lc1 p1 sc1 Pessimistic st1,
               base = calculateScenarioProjection ac1 lc1 p1 sc1 Base st1,
               optimistic = calculateScenarioProjection ac1 lc1 p1 sc1 Optimistic st1\<rparr>)"
proof -
  have "cache e' (getCacheKey J p1 sc1 st1) = Some r"
    using assms(6) by (rule calculateProjections_cached)
  then have "cache e' (getCacheKey J p2 sc2 st2) = Some r"
    by (simp add: getCacheKey_cong [OF assms(1-5)])
  then have "calculateProjections J ac2 lc2 e' p2 sc2 st2 = (r, e')"
    by (rule calculateProjections_hit)
  then show ?thesis
    using calculateProjections_miss [OF _ assms(6)] by blast
qed

theorem calculateProjections_second_call_witness:
  "calculateProjections tagsOnly None False
     (snd (calculateProjections tagsOnly (Some getAssetInfo) True newEngine freshPortfolio
             defaultScenarios defaultSettings))
     renamedPortfolio defaultScenarios defaultSettings
   = calculateProjections tagsOnly (Some getAssetInfo) True newEngine freshPortfolio
       defaultScenarios defaultSettings
   \<and> cache newEngine (getCacheKey tagsOnly freshPortfolio defaultScenarios defaultSettings) = None
   \<and> fst (calculateProjections tagsOnly (Some getAssetInfo) True newEngine freshPortfolio
             defaultScenarios defaultSettings) = 0
   \<and> heap (snd (calculateProjections tagsOnly (Some getAssetInfo) True newEngine freshPortfolio
             defaultScenarios defaultSettings)) ! 0
     = \<lparr>pessimistic = calculateScenarioProjection (Some getAssetInfo) True freshPortfolio
                         defaultScenarios Pessimistic defaultSettings,
        base = calculateScenarioProjection (Some getAssetInfo) True freshPortfolio
                         defaultScenarios Base defaultSettings,
        optimistic = calculateScenarioProjection (Some getAssetInfo) True freshPortfolio
                         defaultScenarios Optimistic defaultSettings\<rparr>"
proof -
  let ?first = "calculateProjections tagsOnly (Some getAssetInfo) True newEngine freshPortfolio
                  defaultScenarios defaultSettings"
  have a: "map (\<lambda>a. (asset_type a, asset_value a))
             (case assets freshPortfolio of None \<Rightarrow> [] | Some as \<Rightarrow> as)
         = map (\<lambda>a. (asset_type a, asset_value a))
             (case assets renamedPortfolio of None \<Rightarrow> [] | Some as \<Rightarrow> as)"
    by (simp add: freshPortfolio_def renamedPortfolio_def stocksAsset_def)
  have l: "map (\<lambda>l. (liab_type l, principal l, rate l, termYears l))
             (case liabilities freshPortfolio of None \<Rightarrow> [] | Some ls \<Rightarrow> ls)
         = map (\<lambda>l. (liab_type l, principal l, rate l, termYears l))
             (case liabilities renamedPortfolio of None \<Rightarrow> [] | Some ls \<Rightarrow> ls)"
    by (simp add: freshPortfolio_def renamedPortfolio_def)
  have f: "?first = (fst ?first, snd ?first)"
    by simp
  have n: "cache newEngine (getCacheKey tagsOnly freshPortfolio defaultScenarios defaultSettings) = None"
    by (simp add: newEngine_def)
  have h: "length (heap newEngine) = 0"
    by (simp add: newEngine_def)
  show ?thesis
    using calculateProjections_second_call [OF a l refl refl refl f, of None False] n h
    by auto
qed

theorem reordered_table_counterexample:
  "map_of (returnRates reorderedScenarios) = map_of (returnRates defaultScenarios)
   \<and> calculateProjections tagsAndRateKeys (Some getAssetInfo) True newEngine freshPortfolio
        defaultScenarios defaultSettings
     = (0, \<lparr>heap = [\<lparr>pessimistic = calculateScenarioProjection (Some getAssetInfo) True
                        freshPortfolio defaultScenarios Pessimistic defaultSettings,
                      base = calculateScenarioProjection (Some getAssetInfo) True
                        freshPortfolio defaultScenarios Base defaultSettings,
                      optimistic = calculateScenarioProjection (Some getAssetInfo) True
                        freshPortfolio defaultScenarios Optimistic defaultSettings\<rparr>],
            cache = [''stocks|stocksbondscashrealty'' \<mapsto> 0]\<rparr>)
   \<and> fst (calculateProjections tagsAndRateKeys (Some getAssetInfo) True
        (snd (calculateProjections tagsAndRateKeys (Some getAssetInfo) True newEngine
                freshPortfolio defaultScenarios defaultSettings))
        freshPortfolio reorderedScenarios defaultSettings) = 1"
proof -
  have m: "map_of (returnRates reorderedScenarios) = map_of (returnRates defaultScenarios)"
    by (rule ext) (simp add: reorderedScenarios_def defaultScenarios_def)
  have k1: "getCacheKey tagsAndRateKeys freshPortfolio defaultScenarios defaultSettings
          = ''stocks|stocksbondscashrealty''"
    by (simp add: getCacheKey_def tagsAndRateKeys_def freshPortfolio_def defaultScenarios_def
        stocksAsset_def)
  have k2: "getCacheKey tagsAndRateKeys freshPortfolio reorderedScenarios defaultSettings
          = ''stocks|bondsstockscashrealty''"
    by (simp add: getCacheKey_def tagsAndRateKeys_def freshPortfolio_def reorderedScenarios_def
        stocksAsset_def)
  have c1: "calculateProjections tagsAndRateKeys (Some getAssetInfo) True newEngine freshPortfolio
        defaultScenarios defaultSettings
     = (0, \<lparr>heap = [\<lparr>pessimistic = calculateScenarioProjection (Some getAssetInfo) True
                        freshPortfolio defaultScenarios Pessimistic defaultSettings,
                      base = calculateScenarioProjection (Some getAssetInfo) True
                        freshPortfolio defaultScenarios Base defaultSettings,
                      optimistic = calculateScenarioProjection (Some getAssetInfo) True
                        freshPortfolio defaultScenarios Optimistic defaultSettings\<rparr>],
            cache = [''stocks|stocksbondscashrealty'' \<mapsto> 0]\<rparr>)"
    by (simp add: calculateProjections_def k1 newEngine_def Let_def)
  show ?thesis
    unfolding c1 using m by (simp add: calculateProjections_def k2 Let_def)
qed

text \<open>
  C5, as the code has it: two portfolios with the same asset list and the same liability
  list get the same result from \<open>calculateProjections\<close> and from
  \<open>calculateScenarioProjection\<close>, whatever their cached totals; \<open>calculateMetrics\<close> and
  \<open>calculateRiskScore\<close> read the cached \<open>totalValue\<close>, and give the same result when the
  two portfolios agree on it as well (they read neither \<open>totalLiabilities\<close> nor
  \<open>netWorth\<close>).
\<close>

theorem cached_totals_dependence:
  assumes "assets p1 = assets p2" and "liabilities p1 = liabilities p2"
  shows "calculateProjections J ac lc e p1 sc st = calculateProjections J ac lc e p2 sc st
       \<and> calculateScenarioProjection ac lc p1 sc s st = calculateScenarioProjection ac lc p2 sc s st
       \<and> (totalValue p1 = totalValue p2 \<longrightarrow>
            calculateMetrics p1 pr st = calculateMetrics p2 pr st
            \<and> calculateRiskScore p1 v = calculateRiskScore p2 v)"
proof -
  have k: "getCacheKey J p1 sc st = getCacheKey J p2 sc st"
    by (simp add: getCacheKey_def assms)
  have c: "calculateProjections J ac lc e p1 sc st = calculateProjections J ac lc e p2 sc st"
    unfolding calculateProjections_def k calculateScenarioProjection_cong [OF assms] ..
  have r: "calculateRiskScore p1 w = calculateRiskScore p2 w" if "totalValue p1 = totalValue p2" for w
    unfolding calculateRiskScore_def assms that ..
  have m: "calculateMetrics p1 pr st = calculateMetrics p2 pr st" if "totalValue p1 = totalValue p2"
    unfolding calculateMetrics_def r [OF that] that ..
  show ?thesis
    using c calculateScenarioProjection_cong [OF assms] r m by simp
qed

theorem cached_totals_dependence_witness:
  "assets freshPortfolio = assets stalePortfolio
   \<and> liabilities freshPortfolio = liabilities stalePortfolio
   \<and> calculateProjections tagsOnly (Some getAssetInfo) True newEngine freshPortfolio
        defaultScenarios defaultSettings
     = calculateProjections tagsOnly (Some getAssetInfo) True newEngine stalePortfolio
        defaultScenarios defaultSettings
   \<and> assets freshPortfolio = assets staleDebtPortfolio
   \<and> liabilities freshPortfolio = liabilities staleDebtPortfolio
   \<and> totalValue freshPortfolio = totalValue staleDebtPortfolio
   \<and> calculateMetrics freshPortfolio noProjections defaultSettings
     = calculateMetrics staleDebtPortfolio noProjections defaultSettings
   \<and> calculateRiskScore freshPortfolio (Num 0) = calculateRiskScore staleDebtPortfolio (Num 0)"
proof -
  have a: "assets freshPortfolio = assets stalePortfolio"
    and l: "liabilities freshPortfolio = liabilities stalePortfolio"
    and a': "assets freshPortfolio = assets staleDebtPortfolio"
    and l': "liabilities freshPortfolio = liabilities staleDebtPortfolio"
    and t': "totalValue freshPortfolio = totalValue staleDebtPortfolio"
    by (simp_all add: freshPortfolio_def stalePortfolio_def staleDebtPortfolio_def)
  show ?thesis
    using cached_totals_dependence [OF a l, of tagsOnly "Some getAssetInfo" True newEngine
            defaultScenarios defaultSettings]
          cached_totals_dependence [OF a' l', of _ _ _ _ _ defaultSettings _ noProjections "Num 0"]
          a l a' l' t'
    by simp
qed

theorem cached_totals_counterexample:
  "assets freshPortfolio = assets stalePortfolio
   \<and> liabilities freshPortfolio = liabilities stalePortfolio
   \<and> calculateRiskScore freshPortfolio (Num 0) = Num 6
   \<and> calculateRiskScore stalePortfolio (Num 0) = Num 1
   \<and> currentValue (calculateMetrics freshPortfolio noProjections defaultSettings) = 100000
   \<and> currentValue (calculateMetrics stalePortfolio noProjections defaultSettings) = 1000000"
  by (simp add: freshPortfolio_def stalePortfolio_def calculateRiskScore_def stocksAsset_def
      or_default_def assetRiskWeights_def Math_min_def Math_max_def calculateMetrics_def Let_def)

section \<open>Properties of the metrics\<close>

text \<open>
  C9: in \<open>calculateMetrics\<close>, \<open>growthRate\<close> is 0 whenever the current value is not
  positive or the horizon is not positive, and \<open>volatility\<close> is 0 whenever the current
  value is not positive; the current value is \<open>portfolio.totalValue || 0\<close>, so a
  portfolio with \<open>totalValue\<close> 0 has \<open>growthRate\<close> 0 for every horizon.
\<close>

theorem calculateMetrics_guards:
  "(currentValue (calculateMetrics p pr st) \<le> 0 \<or> horizonYears st \<le> 0
      \<longrightarrow> growthRate (calculateMetrics p pr st) = Num 0)
   \<and> (currentValue (calculateMetrics p pr st) \<le> 0 \<longrightarrow> volatility (calculateMetrics p pr st) = Num 0)
   \<and> currentValue (calculateMetrics p pr st) = or_default (totalValue p) 0
   \<and> (totalValue p = Some 0 \<longrightarrow> growthRate (calculateMetrics p pr st) = Num 0)"
  by (auto simp add: calculateMetrics_def Let_def or_default_def)

theorem calculateMetrics_guards_witness:
  "currentValue (calculateMetrics emptyPortfolio noProjections defaultSettings) \<le> 0
   \<and> totalValue emptyPortfolio = Some 0
   \<and> growthRate (calculateMetrics emptyPortfolio noProjections defaultSettings) = Num 0
   \<and> volatility (calculateMetrics emptyPortfolio noProjections defaultSettings) = Num 0
   \<and> horizonYears zeroHorizon \<le> 0
   \<and> growthRate (calculateMetrics freshPortfolio noProjections zeroHorizon) = Num 0"
  using calculateMetrics_guards [of emptyPortfolio noProjections defaultSettings]
        calculateMetrics_guards [of freshPortfolio noProjections zeroHorizon]
  by (simp add: emptyPortfolio_def or_default_def zeroHorizon_def)

end
